theory Spec2Isabelle
  imports Complex_Main
begin

section \<open>The TD-learning agent of \<open>src/td_learning.py\<close>\<close>

text \<open>
  The agent keeps two numpy arrays of shape \<open>(11, 22, n_actions)\<close> (action values and
  visit counts) and three \<open>deque\<close>s of capacity 2. The embedding below follows the
  Python statement by statement. Exceptions are values of \<open>error\<close>; a method that
  mutates \<open>self\<close> returns the new agent. Array entries, rewards, \<open>n_0\<close> and \<open>gamma\<close>
  are real numbers: float32 and float64 rounding is not modelled, every arithmetic result
  is the exact one.
\<close>

subsection \<open>Exceptions\<close>

datatype error =
  IndexError | ValueError | KeyError | UnboundLocalError | FileNotFoundError | UnpicklingError

text \<open>Sequencing: the first exception raised ends the computation.\<close>

definition and_then :: "error + 'a \<Rightarrow> ('a \<Rightarrow> error + 'b) \<Rightarrow> error + 'b" where
  "and_then m f = (case m of Inl e \<Rightarrow> Inl e | Inr x \<Rightarrow> f x)"

definition index_or_raise :: "nat option \<Rightarrow> error + nat" where
  "index_or_raise i = (case i of None \<Rightarrow> Inl IndexError | Some j \<Rightarrow> Inr j)"

subsection \<open>\<open>collections.deque\<close> with a \<open>maxlen\<close>\<close>

datatype 'a deque = Deque (items: "'a list") (maxlen: nat)

text \<open>\<open>deque.append\<close>: a full deque drops its leftmost item first.\<close>

definition deque_append :: "'a deque \<Rightarrow> 'a \<Rightarrow> 'a deque" where
  "deque_append dq x =
     (if maxlen dq = 0 then dq
      else if maxlen dq \<le> length (items dq) then Deque (tl (items dq) @ [x]) (maxlen dq)
      else Deque (items dq @ [x]) (maxlen dq))"

text \<open>\<open>dq[i]\<close> for the literal indices 0 and 1 the agent uses.\<close>

definition deque_getitem :: "'a deque \<Rightarrow> nat \<Rightarrow> error + 'a" where
  "deque_getitem dq i = (if i < length (items dq) then Inr (items dq ! i) else Inl IndexError)"

text \<open>\<open>dq.popleft()\<close> raises IndexError on an empty deque.\<close>

definition deque_popleft :: "'a deque \<Rightarrow> error + 'a \<times> 'a deque" where
  "deque_popleft dq =
     (case items dq of [] \<Rightarrow> Inl IndexError | x # xs \<Rightarrow> Inr (x, Deque xs (maxlen dq)))"

text \<open>The tuple assignment \<open>a, a_1 = dq\<close> raises ValueError unless there are exactly two items.\<close>

definition unpack2 :: "'a deque \<Rightarrow> error + 'a \<times> 'a" where
  "unpack2 dq = (case items dq of [x, y] \<Rightarrow> Inr (x, y) | _ \<Rightarrow> Inl ValueError)"

subsection \<open>Three-dimensional numpy arrays\<close>

record ndarray =
  shape :: "nat \<times> nat \<times> nat"
  cells :: "nat \<times> nat \<times> nat \<Rightarrow> real"

definition zeros :: "nat \<times> nat \<times> nat \<Rightarrow> ndarray" where
  "zeros sh = \<lparr>shape = sh, cells = (\<lambda>c. 0)\<rparr>"

text \<open>
  numpy accepts an index \<open>i\<close> along an axis of length \<open>n\<close> when \<open>-n \<le> i < n\<close>; a negative
  index counts from the end.
\<close>

definition norm_index :: "nat \<Rightarrow> int \<Rightarrow> nat option" where
  "norm_index n i =
     (if 0 \<le> i \<and> i < int n then Some (nat i)
      else if - int n \<le> i \<and> i < 0 then Some (nat (i + int n))
      else None)"

text \<open>The cell that \<open>arr[i, j, k]\<close> addresses, or IndexError.\<close>

definition locate :: "ndarray \<Rightarrow> int \<times> int \<times> int \<Rightarrow> error + nat \<times> nat \<times> nat" where
  "locate arr idx =
     (case shape arr of (s1, s2, s3) \<Rightarrow>
      case idx of (i, j, k) \<Rightarrow>
        and_then (index_or_raise (norm_index s1 i)) (\<lambda>i'.
        and_then (index_or_raise (norm_index s2 j)) (\<lambda>j'.
        and_then (index_or_raise (norm_index s3 k)) (\<lambda>k'.
        Inr (i', j', k')))))"

definition ndarray_getitem :: "ndarray \<Rightarrow> int \<times> int \<times> int \<Rightarrow> error + real" where
  "ndarray_getitem arr idx = and_then (locate arr idx) (\<lambda>c. Inr (cells arr c))"

definition ndarray_setitem :: "ndarray \<Rightarrow> int \<times> int \<times> int \<Rightarrow> real \<Rightarrow> error + ndarray" where
  "ndarray_setitem arr idx v =
     and_then (locate arr idx) (\<lambda>c. Inr (arr\<lparr>cells := (cells arr)(c := v)\<rparr>))"

text \<open>
  \<open>arr.take(indices)\<close> without an \<open>axis\<close> reads the flattened (row-major) array: the
  flat position \<open>f\<close> is the cell \<open>(f div (s2 * s3), (f div s3) mod s2, f mod s3)\<close>. The
  result has one entry per index given.
\<close>

definition unravel :: "nat \<times> nat \<times> nat \<Rightarrow> nat \<Rightarrow> nat \<times> nat \<times> nat" where
  "unravel sh f = (case sh of (s1, s2, s3) \<Rightarrow> (f div (s2 * s3), (f div s3) mod s2, f mod s3))"

definition ndarray_size :: "ndarray \<Rightarrow> nat" where
  "ndarray_size arr = (case shape arr of (s1, s2, s3) \<Rightarrow> s1 * s2 * s3)"

fun ndarray_take :: "ndarray \<Rightarrow> int list \<Rightarrow> error + real list" where
  "ndarray_take arr [] = Inr []"
| "ndarray_take arr (i # is) =
     and_then (index_or_raise (norm_index (ndarray_size arr) i)) (\<lambda>f.
     and_then (ndarray_take arr is) (\<lambda>vs.
     Inr (cells arr (unravel (shape arr) f) # vs)))"

text \<open>\<open>np.argmax\<close>: the first position of the largest entry; ValueError on an empty array.\<close>

fun argmax_from :: "real list \<Rightarrow> nat \<Rightarrow> nat \<Rightarrow> real \<Rightarrow> nat" where
  "argmax_from [] i best bv = best"
| "argmax_from (x # xs) i best bv =
     (if bv < x then argmax_from xs (Suc i) i x else argmax_from xs (Suc i) best bv)"

definition argmax :: "real list \<Rightarrow> error + nat" where
  "argmax xs = (case xs of [] \<Rightarrow> Inl ValueError | x # ys \<Rightarrow> Inr (argmax_from ys 1 0 x))"

subsection \<open>The agent\<close>

text \<open>
  The attributes of a \<open>TDLearningAgent\<close>. The two tables are numpy arrays, except
  between the two conversions inside \<open>save\<close> and in a pickled file, where they are nested
  lists; \<open>'t\<close> is the type of the tables.
\<close>

record ('a, 't) agent_obj =
  possible_actions :: "'a list"
  n_actions :: nat
  gamma :: real
  n_0 :: real
  base_name :: string
  action2id :: "'a \<rightharpoonup> nat"
  id2action :: "nat \<rightharpoonup> 'a"
  state_action_values :: 't
  state_action_visits :: 't
  past_actions :: "nat deque"
  past_states :: "(int \<times> int) deque"
  past_returns :: "real deque"

type_synonym 'a agent = "('a, ndarray) agent_obj"

text \<open>\<open>dict(zip(keys, values))\<close>: a key that occurs twice keeps its last value.\<close>

definition dict_zip :: "'k list \<Rightarrow> 'v list \<Rightarrow> ('k \<rightharpoonup> 'v)" where
  "dict_zip ks vs = map_of (rev (zip ks vs))"

definition init :: "'a list \<Rightarrow> real \<Rightarrow> real \<Rightarrow> string \<Rightarrow> 'a agent" where
  "init acts n0 g name =
     \<lparr>possible_actions = acts,
      n_actions = length acts,
      gamma = g,
      n_0 = n0,
      base_name = name,
      action2id = dict_zip acts [0..<length acts],
      id2action = dict_zip [0..<length acts] acts,
      state_action_values = zeros (11, 22, length acts),
      state_action_visits = zeros (11, 22, length acts),
      past_actions = Deque [] 2,
      past_states = Deque [] 2,
      past_returns = Deque [] 2\<rparr>"

text \<open>
  \<open>random.choice(range(n))\<close>: IndexError on an empty range, otherwise a member of the
  range; the draw is the argument \<open>k\<close>, reduced into the range.
\<close>

definition random_choice :: "nat \<Rightarrow> nat \<Rightarrow> error + nat" where
  "random_choice n k = (if n = 0 then Inl IndexError else Inr (k mod n))"

text \<open>
  Line 35: \<open>epsilon = n_0 / (n_0 + self._state_action_visits.take(state).sum())\<close>, where
  \<open>state\<close> is the pair \<open>(dealer_card, player_sum)\<close>. numpy's division by zero gives
  \<open>nan\<close> or an infinity and no exception; HOL's gives 0, and all three make the test
  \<open>u < epsilon\<close> of line 38 false for a draw \<open>u \<ge> 0\<close>.
\<close>

definition epsilon :: "'a agent \<Rightarrow> int \<times> int \<Rightarrow> error + real" where
  "epsilon ag state =
     and_then (ndarray_take (state_action_visits ag) [fst state, snd state]) (\<lambda>visits.
     Inr (n_0 ag / (n_0 ag + sum_list visits)))"

text \<open>
  \<open>take_action\<close> (lines 31-44). \<open>u\<close> is the value of \<open>random.random()\<close> and \<open>k\<close> the draw
  of \<open>random.choice\<close>. The method assigns to no attribute of \<open>self\<close>; the agent it
  returns is the one it was given.
\<close>

definition take_action ::
  "'a agent \<Rightarrow> int \<times> int \<Rightarrow> bool \<Rightarrow> real \<Rightarrow> nat \<Rightarrow> error + 'a \<times> 'a agent" where
  "take_action ag state explore u k =
     and_then (epsilon ag state) (\<lambda>eps.
     and_then
       (if explore \<and> u < eps then random_choice (n_actions ag) k
        else and_then (ndarray_take (state_action_values ag) [fst state, snd state]) argmax)
       (\<lambda>action_id.
          if action_id < length (possible_actions ag)
          then Inr (possible_actions ag ! action_id, ag)
          else Inl IndexError))"

text \<open>\<open>_memorize\<close> (lines 63-66).\<close>

definition memorize :: "'a agent \<Rightarrow> int \<times> int \<Rightarrow> 'a \<Rightarrow> error + 'a agent" where
  "memorize ag state action =
     (case action2id ag action of
        None \<Rightarrow> Inl KeyError
      | Some action_id \<Rightarrow>
          Inr (ag\<lparr>past_states := deque_append (past_states ag) state,
                  past_actions := deque_append (past_actions ag) action_id\<rparr>))"

text \<open>
  The two statements of a learning step on the cell \<open>idx\<close> with target \<open>r + g * Q[nxt]\<close>
  (lines 86-91), in the order Python evaluates them: the count is read, incremented and
  stored; then the old value, the successor's value, the old value again and the new
  count are read, and the sum is stored.
\<close>

definition td_step ::
  "'a agent \<Rightarrow> int \<times> int \<times> int \<Rightarrow> int \<times> int \<times> int \<Rightarrow> real \<Rightarrow> error + 'a agent" where
  "td_step ag idx nxt r =
     and_then (ndarray_getitem (state_action_visits ag) idx) (\<lambda>n.
     and_then (ndarray_setitem (state_action_visits ag) idx (n + 1)) (\<lambda>visits.
     and_then (ndarray_getitem (state_action_values ag) idx) (\<lambda>q0.
     and_then (ndarray_getitem (state_action_values ag) nxt) (\<lambda>q1.
     and_then (ndarray_getitem (state_action_values ag) idx) (\<lambda>q.
     and_then (ndarray_getitem visits idx) (\<lambda>n'.
     and_then (ndarray_setitem (state_action_values ag) idx (q0 + (r + gamma ag * q1 - q) / n'))
       (\<lambda>vals.
     Inr (ag\<lparr>state_action_values := vals, state_action_visits := visits\<rparr>))))))))"

text \<open>The two statements of the terminal branch (lines 93-97).\<close>

definition mc_step :: "'a agent \<Rightarrow> int \<times> int \<times> int \<Rightarrow> real \<Rightarrow> error + 'a agent" where
  "mc_step ag idx r =
     and_then (ndarray_getitem (state_action_visits ag) idx) (\<lambda>n.
     and_then (ndarray_setitem (state_action_visits ag) idx (n + 1)) (\<lambda>visits.
     and_then (ndarray_getitem (state_action_values ag) idx) (\<lambda>q0.
     and_then (ndarray_getitem (state_action_values ag) idx) (\<lambda>q.
     and_then (ndarray_getitem visits idx) (\<lambda>n'.
     and_then (ndarray_setitem (state_action_values ag) idx (q0 + (r - q) / n')) (\<lambda>vals.
     Inr (ag\<lparr>state_action_values := vals, state_action_visits := visits\<rparr>)))))))"

text \<open>
  Lines 75-80 of \<open>_update\<close>: the pairs the update works on. The older pair is bound only
  in the \<open>else\<close> branch.
\<close>

definition history ::
  "'a agent \<Rightarrow> bool \<Rightarrow> error + ((int \<times> int) \<times> nat) option \<times> (int \<times> int) \<times> nat" where
  "history ag terminate =
     (if terminate \<and> length (items (past_states ag)) = 1 then
        and_then (deque_getitem (past_states ag) 0) (\<lambda>s1.
        and_then (deque_getitem (past_actions ag) 0) (\<lambda>a1.
        Inr (None, s1, a1)))
      else
        and_then (deque_getitem (past_states ag) 0) (\<lambda>s.
        and_then (deque_getitem (past_states ag) 1) (\<lambda>s1.
        and_then (unpack2 (past_actions ag)) (\<lambda>(a, a1).
        Inr (Some (s, a), s1, a1)))))"

text \<open>\<open>_update\<close> (lines 68-97).\<close>

definition update :: "'a agent \<Rightarrow> bool \<Rightarrow> error + 'a agent" where
  "update ag terminate =
     and_then (history ag terminate) (\<lambda>(older, (d_H_1, p_H_1), a_1).
     and_then (deque_popleft (past_returns ag)) (\<lambda>(r, returns).
       if \<not> terminate then
         (case older of
            None \<Rightarrow> Inl UnboundLocalError
          | Some ((d_H, p_H), a) \<Rightarrow>
              td_step (ag\<lparr>past_returns := returns\<rparr>)
                (d_H, p_H, int a) (d_H_1, p_H_1, int a_1) r)
       else mc_step (ag\<lparr>past_returns := returns\<rparr>) (d_H_1, p_H_1, int a_1) r))"

text \<open>\<open>_clear_cache\<close> (lines 99-103); \<open>gc.collect()\<close> changes nothing the agent can see.\<close>

definition clear_cache :: "'a agent \<Rightarrow> 'a agent" where
  "clear_cache ag =
     ag\<lparr>past_actions := Deque [] 2, past_states := Deque [] 2, past_returns := Deque [] 2\<rparr>"

text \<open>\<open>observe_and_act\<close> (lines 46-61); \<open>reward=None\<close> is \<open>None\<close>.\<close>

definition observe_and_act ::
  "'a agent \<Rightarrow> int \<times> int \<Rightarrow> real option \<Rightarrow> bool \<Rightarrow> real \<Rightarrow> nat \<Rightarrow> error + 'a option \<times> 'a agent"
  where
  "observe_and_act ag state reward terminate u k =
     and_then
       (if \<not> terminate then
          and_then (take_action ag state True u k) (\<lambda>(act, ag1).
          and_then (memorize ag1 state act) (\<lambda>ag2.
          Inr (Some act, ag2)))
        else Inr (None, ag))
       (\<lambda>(action, ag2).
     and_then
       (case reward of
          None \<Rightarrow> Inr ag2
        | Some r \<Rightarrow> update (ag2\<lparr>past_returns := deque_append (past_returns ag2) r\<rparr>) terminate)
       (\<lambda>ag3.
     Inr (action, if terminate then clear_cache ag3 else ag3)))"


subsection \<open>Persistence\<close>

text \<open>\<open>arr.tolist()\<close>: the nested lists of the entries, axis by axis.\<close>

definition ndarray_tolist :: "ndarray \<Rightarrow> real list list list" where
  "ndarray_tolist arr =
     (case shape arr of (s1, s2, s3) \<Rightarrow>
        map (\<lambda>i. map (\<lambda>j. map (\<lambda>k. cells arr (i, j, k)) [0..<s3]) [0..<s2]) [0..<s1])"

text \<open>
  \<open>np.asarray\<close> of nested lists of equal lengths: the shape is read off the first
  entries, the cells are the list entries.
\<close>

definition asarray :: "real list list list \<Rightarrow> ndarray" where
  "asarray l =
     \<lparr>shape = (length l,
               (case l of [] \<Rightarrow> 0 | x # _ \<Rightarrow> length x),
               (case l of [] \<Rightarrow> 0 | x # _ \<Rightarrow> (case x of [] \<Rightarrow> 0 | y # _ \<Rightarrow> length y))),
      cells = (\<lambda>(i, j, k).
                 if i < length l \<and> j < length (l ! i) \<and> k < length (l ! i ! j)
                 then l ! i ! j ! k else 0)\<rparr>"

text \<open>The object with its two tables replaced, every other attribute kept.\<close>

definition with_tables :: "('a, 's) agent_obj \<Rightarrow> 't \<Rightarrow> 't \<Rightarrow> ('a, 't) agent_obj" where
  "with_tables ag vals visits =
     \<lparr>possible_actions = possible_actions ag,
      n_actions = n_actions ag,
      gamma = gamma ag,
      n_0 = n_0 ag,
      base_name = base_name ag,
      action2id = action2id ag,
      id2action = id2action ag,
      state_action_values = vals,
      state_action_visits = visits,
      past_actions = past_actions ag,
      past_states = past_states ag,
      past_returns = past_returns ag\<rparr>"

text \<open>A file holds a pickled agent (tables as nested lists) or a figure.\<close>

datatype 'a blob = Pickle "('a, real list list list) agent_obj" | Figure

type_synonym 'a files = "string \<rightharpoonup> 'a blob"

text \<open>\<open>os.path.join\<close> of two components on a POSIX system.\<close>

definition path_join :: "string \<Rightarrow> string \<Rightarrow> string" where
  "path_join a b =
     (if b \<noteq> [] \<and> hd b = CHR ''/'' then b
      else if a = [] \<or> last a = CHR ''/'' then a @ b
      else a @ ''/'' @ b)"

text \<open>
  Modelled from the spec: \<open>_save_local\<close> of the base class \<open>RLearningAgent\<close>
  (\<open>src/agent.py\<close>, not among the sources). The spec gives the file written by one call as
  \<open><output_dir>/<base_name>[_<iteration>].<ext>\<close>, a binary blob holding the agent for
  \<open>pkl\<close> and an image for \<open>png\<close>. \<open>save\<close> passes the joined \<open><output_dir>/<base_name>\<close>
  as the first argument, so the method appends the iteration tag and the extension. The
  argument \<open>content\<close> is what the call writes of \<open>self\<close>. Writing always succeeds here:
  I/O failures are outside the model.
\<close>

definition file_path :: "string \<Rightarrow> string option \<Rightarrow> string \<Rightarrow> string" where
  "file_path prefix iteration ext =
     prefix @ (case iteration of None \<Rightarrow> [] | Some tag \<Rightarrow> ''_'' @ tag) @ ''.'' @ ext"

definition save_local ::
  "'a blob \<Rightarrow> string \<Rightarrow> string option \<Rightarrow> string \<Rightarrow> 'a files \<Rightarrow> 'a files" where
  "save_local content prefix iteration ext fs = fs(file_path prefix iteration ext \<mapsto> content)"

text \<open>
  \<open>_save_plot\<close> (lines 126-146): the slices \<open>[1:, 1:, 0]\<close> raise IndexError when the
  third axis is empty; the matplotlib calls are taken to succeed; the figure is written
  with extension \<open>png\<close>.
\<close>

definition save_plot :: "'a agent \<Rightarrow> string \<Rightarrow> string option \<Rightarrow> 'a files \<Rightarrow> error + 'a files" where
  "save_plot ag output_dir iteration fs =
     (if snd (snd (shape (state_action_values ag))) = 0 then Inl IndexError
      else if snd (snd (shape (state_action_visits ag))) = 0 then Inl IndexError
      else Inr (save_local Figure output_dir iteration ''png'' fs))"

text \<open>\<open>save\<close> (lines 105-124); it returns the agent and the files as it leaves them.\<close>

definition save ::
  "'a agent \<Rightarrow> string \<Rightarrow> string option \<Rightarrow> 'a files \<Rightarrow> error + 'a agent \<times> 'a files" where
  "save ag output_dir iteration fs =
     (let output_dir = path_join output_dir (base_name ag);
          ag1 = clear_cache ag;
          obj = with_tables ag1 (ndarray_tolist (state_action_values ag1))
                  (ndarray_tolist (state_action_visits ag1));
          fs1 = save_local (Pickle obj) output_dir iteration ''pkl'' fs;
          ag2 = with_tables obj (asarray (state_action_values obj))
                  (asarray (state_action_visits obj))
      in and_then (save_plot ag2 output_dir iteration fs1) (\<lambda>fs2. Inr (ag2, fs2)))"

text \<open>
  \<open>load\<close> (lines 148-153): \<open>open\<close> raises FileNotFoundError for a missing file and
  \<open>pickle.load\<close> raises UnpicklingError for a file that is no pickle.
\<close>

definition load :: "string \<Rightarrow> 'a files \<Rightarrow> error + 'a agent" where
  "load fname fs =
     (case fs fname of
        None \<Rightarrow> Inl FileNotFoundError
      | Some Figure \<Rightarrow> Inl UnpicklingError
      | Some (Pickle obj) \<Rightarrow>
          Inr (with_tables obj (asarray (state_action_values obj))
                 (asarray (state_action_visits obj))))"

subsection \<open>The greedy choice and the exploration rate as the specification words them\<close>

text \<open>
  The row \<open>Q[dealer_card, player_sum, :]\<close> of a table: one entry per index of the third
  axis.
\<close>

definition row :: "ndarray \<Rightarrow> int \<times> int \<Rightarrow> error + real list" where
  "row arr state =
     (case shape arr of (s1, s2, s3) \<Rightarrow>
        and_then (index_or_raise (norm_index s1 (fst state))) (\<lambda>i.
        and_then (index_or_raise (norm_index s2 (snd state))) (\<lambda>j.
        Inr (map (\<lambda>k. cells arr (i, j, k)) [0..<s3]))))"

text \<open>
  The specification's greedy action: the action whose id is the first position of the
  largest entry of the row \<open>Q[state, :]\<close>.
\<close>

definition spec_greedy :: "'a agent \<Rightarrow> int \<times> int \<Rightarrow> error + 'a" where
  "spec_greedy ag state =
     and_then (row (state_action_values ag) state) (\<lambda>action_values.
     and_then (argmax action_values) (\<lambda>action_id.
       if action_id < length (possible_actions ag)
       then Inr (possible_actions ag ! action_id)
       else Inl IndexError))"

text \<open>
  The specification's exploration rate: \<open>n_0 / (n_0 + S)\<close>, with \<open>S\<close> the sum of the row
  \<open>N[state, :]\<close>.
\<close>

definition spec_epsilon :: "'a agent \<Rightarrow> int \<times> int \<Rightarrow> error + real" where
  "spec_epsilon ag state =
     and_then (row (state_action_visits ag) state) (\<lambda>visits.
     Inr (n_0 ag / (n_0 ag + sum_list visits)))"

subsection \<open>Example agents\<close>

text \<open>The agent of the game: two actions, the default \<open>n_0\<close> and \<open>gamma\<close> of the source.\<close>

definition easy21 :: "string agent" where
  "easy21 = init [''hit'', ''stick''] 100 1 ''td_learning''"

text \<open>An agent given two recorded pairs and one pending reward.\<close>

definition two_pairs :: "string agent \<Rightarrow> real \<Rightarrow> string agent" where
  "two_pairs ag r =
     ag\<lparr>past_actions := Deque [1, 0] 2,
        past_states := Deque [(5, 10), (6, 12)] 2,
        past_returns := Deque [r] 2\<rparr>"

text \<open>An agent given one recorded pair and one pending reward.\<close>

definition one_pair :: "string agent \<Rightarrow> real \<Rightarrow> string agent" where
  "one_pair ag r =
     ag\<lparr>past_actions := Deque [1] 2,
        past_states := Deque [(5, 10)] 2,
        past_returns := Deque [r] 2\<rparr>"

text \<open>
  The agent after one episode in which it took \<open>stick\<close> in state \<open>(5, 10)\<close> and won:
  \<open>Q[5, 10, 1] = 1\<close> and \<open>N[5, 10, 1] = 1\<close>, every other entry 0.
\<close>

definition trained :: "string agent" where
  "trained =
     easy21\<lparr>state_action_values :=
               \<lparr>shape = (11, 22, 2), cells = (\<lambda>c. 0)((5, 10, 1) := 1)\<rparr>,
            state_action_visits :=
               \<lparr>shape = (11, 22, 2), cells = (\<lambda>c. 0)((5, 10, 1) := 1)\<rparr>\<rparr>"

section \<open>Properties\<close>

subsection \<open>Auxiliary facts\<close>

lemma and_then_Inr [simp]: "and_then (Inr x) f = f x"
  by (simp add: and_then_def)

lemma and_then_Inl [simp]: "and_then (Inl e) f = Inl e"
  by (simp add: and_then_def)

lemma getitem_located: "locate arr idx = Inr c \<Longrightarrow> ndarray_getitem arr idx = Inr (cells arr c)"
  by (simp add: ndarray_getitem_def)

lemma setitem_located:
  "locate arr idx = Inr c \<Longrightarrow> ndarray_setitem arr idx v = Inr (arr\<lparr>cells := (cells arr)(c := v)\<rparr>)"
  by (simp add: ndarray_setitem_def)

lemma locate_cells_update [simp]: "locate (arr\<lparr>cells := f\<rparr>) idx = locate arr idx"
  by (simp add: locate_def)

lemma locate_same_shape: "shape a = shape b \<Longrightarrow> locate a idx = locate b idx"
  by (simp add: locate_def)

lemma td_step_located:
  assumes "locate (state_action_visits ag) idx = Inr cn"
      and "locate (state_action_values ag) idx = Inr c"
      and "locate (state_action_values ag) nxt = Inr c'"
  shows "td_step ag idx nxt r =
     Inr (ag\<lparr>state_action_values := (state_action_values ag)\<lparr>cells :=
               (cells (state_action_values ag))(c := cells (state_action_values ag) c +
                  (r + gamma ag * cells (state_action_values ag) c' - cells (state_action_values ag) c)
                  / (cells (state_action_visits ag) cn + 1))\<rparr>,
             state_action_visits := (state_action_visits ag)\<lparr>cells :=
               (cells (state_action_visits ag))(cn := cells (state_action_visits ag) cn + 1)\<rparr>\<rparr>)"
  using assms by (simp add: td_step_def getitem_located setitem_located)

lemma mc_step_located:
  assumes "locate (state_action_visits ag) idx = Inr cn"
      and "locate (state_action_values ag) idx = Inr c"
  shows "mc_step ag idx r =
     Inr (ag\<lparr>state_action_values := (state_action_values ag)\<lparr>cells :=
               (cells (state_action_values ag))(c := cells (state_action_values ag) c +
                  (r - cells (state_action_values ag) c)
                  / (cells (state_action_visits ag) cn + 1))\<rparr>,
             state_action_visits := (state_action_visits ag)\<lparr>cells :=
               (cells (state_action_visits ag))(cn := cells (state_action_visits ag) cn + 1)\<rparr>\<rparr>)"
  using assms by (simp add: mc_step_def getitem_located setitem_located)

lemma history_two:
  "items (past_states ag) = [s, s'] \<Longrightarrow> items (past_actions ag) = [a, a'] \<Longrightarrow>
   history ag t = Inr (Some (s, a), s', a')"
  by (simp add: history_def deque_getitem_def unpack2_def)

lemma history_one:
  "items (past_states ag) = [s] \<Longrightarrow> items (past_actions ag) = a # as \<Longrightarrow>
   history ag True = Inr (None, s, a)"
  by (simp add: history_def deque_getitem_def)

lemma history_empty: "items (past_states ag) = [] \<Longrightarrow> history ag t = Inl IndexError"
  by (simp add: history_def deque_getitem_def)

lemma history_one_nonterminal:
  "length (items (past_states ag)) \<le> 1 \<Longrightarrow> history ag False = Inl IndexError"
  by (cases "items (past_states ag)") (simp_all add: history_def deque_getitem_def)

lemma popleft_cons:
  "items dq = r # rs \<Longrightarrow> deque_popleft dq = Inr (r, Deque rs (maxlen dq))"
  by (simp add: deque_popleft_def)

lemma update_two:
  assumes "items (past_states ag) = [s, s']"
      and "items (past_actions ag) = [a, a']"
      and "items (past_returns ag) = r # rs"
      and "locate (state_action_visits ag) (fst s, snd s, int a) = Inr cn"
      and "locate (state_action_values ag) (fst s, snd s, int a) = Inr c"
      and "locate (state_action_values ag) (fst s', snd s', int a') = Inr c'"
  shows "update ag False =
     Inr (ag\<lparr>state_action_values := (state_action_values ag)\<lparr>cells :=
               (cells (state_action_values ag))(c := cells (state_action_values ag) c +
                  (r + gamma ag * cells (state_action_values ag) c' - cells (state_action_values ag) c)
                  / (cells (state_action_visits ag) cn + 1))\<rparr>,
             state_action_visits := (state_action_visits ag)\<lparr>cells :=
               (cells (state_action_visits ag))(cn := cells (state_action_visits ag) cn + 1)\<rparr>,
             past_returns := Deque rs (maxlen (past_returns ag))\<rparr>)"
  using assms
  by (cases s; cases s') (simp add: update_def history_two popleft_cons td_step_located)

lemma update_last:
  assumes "items (past_returns ag) = r # rs"
      and "(items (past_states ag) = [s] \<and> items (past_actions ag) = a # as) \<or>
           (items (past_states ag) = [s0, s] \<and> items (past_actions ag) = [a0, a])"
      and "locate (state_action_visits ag) (fst s, snd s, int a) = Inr cn"
      and "locate (state_action_values ag) (fst s, snd s, int a) = Inr c"
  shows "update ag True =
     Inr (ag\<lparr>state_action_values := (state_action_values ag)\<lparr>cells :=
               (cells (state_action_values ag))(c := cells (state_action_values ag) c +
                  (r - cells (state_action_values ag) c) / (cells (state_action_visits ag) cn + 1))\<rparr>,
             state_action_visits := (state_action_visits ag)\<lparr>cells :=
               (cells (state_action_visits ag))(cn := cells (state_action_visits ag) cn + 1)\<rparr>,
             past_returns := Deque rs (maxlen (past_returns ag))\<rparr>)"
proof -
  have h: "history ag True = Inr (None, s, a) \<or> (\<exists>old. history ag True = Inr (Some old, s, a))"
    using assms(2) by (auto simp: history_one history_two)
  obtain d p where s: "s = (d, p)" by (cases s)
  from h show ?thesis
    using assms(1,3,4) s
    by (auto simp: update_def popleft_cons mc_step_located)
qed

lemma index_or_raise_cases:
  "index_or_raise x = Inl IndexError \<or> (\<exists>j. index_or_raise x = Inr j)"
  by (cases x) (simp_all add: index_or_raise_def)

lemma ndarray_take_cases:
  "ndarray_take arr is = Inl IndexError \<or>
   (\<exists>vs. ndarray_take arr is = Inr vs \<and> length vs = length is)"
proof (induction "is")
  case Nil
  then show ?case by simp
next
  case (Cons i "is")
  from index_or_raise_cases [of "norm_index (ndarray_size arr) i"] Cons show ?case
    by auto
qed

lemma argmax_nonempty: "xs \<noteq> [] \<Longrightarrow> \<exists>i. argmax xs = Inr i"
  by (cases xs) (simp_all add: argmax_def)

lemma epsilon_cases:
  "epsilon ag state = Inl IndexError \<or> (\<exists>e. epsilon ag state = Inr e)"
  using ndarray_take_cases [of "state_action_visits ag" "[fst state, snd state]"]
  by (auto simp: epsilon_def)

lemma action_id_cases:
  "(if b then random_choice n k
    else and_then (ndarray_take arr [i, j]) argmax) = Inl IndexError \<or>
   (\<exists>a. (if b then random_choice n k
    else and_then (ndarray_take arr [i, j]) argmax) = Inr a)"
proof (cases b)
  case True
  then show ?thesis by (simp add: random_choice_def)
next
  case False
  from ndarray_take_cases [of arr "[i, j]"] show ?thesis
  proof
    assume "ndarray_take arr [i, j] = Inl IndexError"
    with False show ?thesis by simp
  next
    assume "\<exists>vs. ndarray_take arr [i, j] = Inr vs \<and> length vs = length [i, j]"
    then obtain vs where vs: "ndarray_take arr [i, j] = Inr vs" "length vs = 2" by auto
    then have "vs \<noteq> []" by auto
    from argmax_nonempty [OF this] vs False show ?thesis by auto
  qed
qed

lemma take_action_cases:
  "take_action ag state explore u k = Inl IndexError \<or>
   (\<exists>i < length (possible_actions ag).
      take_action ag state explore u k = Inr (possible_actions ag ! i, ag))"
proof -
  from epsilon_cases [of ag state] show ?thesis
  proof
    assume "epsilon ag state = Inl IndexError"
    then show ?thesis by (simp add: take_action_def)
  next
    assume "\<exists>e. epsilon ag state = Inr e"
    then obtain e where e: "epsilon ag state = Inr e" by blast
    define sel where "sel = (if explore \<and> u < e then random_choice (n_actions ag) k
        else and_then (ndarray_take (state_action_values ag) [fst state, snd state]) argmax)"
    have ta: "take_action ag state explore u k =
        and_then sel (\<lambda>action_id.
          if action_id < length (possible_actions ag)
          then Inr (possible_actions ag ! action_id, ag)
          else Inl IndexError)"
      using e unfolding take_action_def sel_def by simp
    have "sel = Inl IndexError \<or> (\<exists>a. sel = Inr a)"
      unfolding sel_def by (rule action_id_cases)
    then show ?thesis
    proof
      assume "sel = Inl IndexError"
      then show ?thesis using ta by simp
    next
      assume "\<exists>a. sel = Inr a"
      then obtain a where a: "sel = Inr a" by blast
      show ?thesis
      proof (cases "a < length (possible_actions ag)")
        case True
        then have "take_action ag state explore u k = Inr (possible_actions ag ! a, ag)"
          using ta a by simp
        with True show ?thesis by blast
      next
        case False
        then show ?thesis using ta a by simp
      qed
    qed
  qed
qed

lemma memorize_known:
  "action2id ag act = Some i \<Longrightarrow>
   memorize ag state act = Inr (ag\<lparr>past_states := deque_append (past_states ag) state,
                                    past_actions := deque_append (past_actions ag) i\<rparr>)"
  by (simp add: memorize_def)

lemma deque_append_empty_length: "items dq = [] \<Longrightarrow> length (items (deque_append dq x)) \<le> 1"
  by (simp add: deque_append_def)

lemma locate_cases: "locate arr idx = Inl IndexError \<or> (\<exists>c. locate arr idx = Inr c)"
proof -
  obtain s1 s2 s3 where sh: "shape arr = (s1, s2, s3)" by (cases "shape arr")
  obtain i j k where idx: "idx = (i, j, k)" by (cases idx)
  from index_or_raise_cases [of "norm_index s1 i"] index_or_raise_cases [of "norm_index s2 j"]
    index_or_raise_cases [of "norm_index s3 k"]
  show ?thesis by (auto simp: locate_def sh idx)
qed

lemma td_step_Inr:
  assumes "td_step ag idx nxt r = Inr ag'"
  shows "\<exists>cn c c'. locate (state_action_visits ag) idx = Inr cn \<and>
           locate (state_action_values ag) idx = Inr c \<and>
           locate (state_action_values ag) nxt = Inr c'"
proof -
  from locate_cases [of "state_action_visits ag" idx] obtain cn
    where cn: "locate (state_action_visits ag) idx = Inr cn"
    using assms by (auto simp: td_step_def ndarray_getitem_def)
  from locate_cases [of "state_action_values ag" idx] obtain c
    where c: "locate (state_action_values ag) idx = Inr c"
    using assms cn by (auto simp: td_step_def ndarray_getitem_def ndarray_setitem_def)
  from locate_cases [of "state_action_values ag" nxt] obtain c'
    where c': "locate (state_action_values ag) nxt = Inr c'"
    using assms cn c by (auto simp: td_step_def ndarray_getitem_def ndarray_setitem_def)
  from cn c c' show ?thesis by blast
qed

lemma mc_step_Inr:
  assumes "mc_step ag idx r = Inr ag'"
  shows "\<exists>cn c. locate (state_action_visits ag) idx = Inr cn \<and>
           locate (state_action_values ag) idx = Inr c"
proof -
  from locate_cases [of "state_action_visits ag" idx] obtain cn
    where cn: "locate (state_action_visits ag) idx = Inr cn"
    using assms by (auto simp: mc_step_def ndarray_getitem_def)
  from locate_cases [of "state_action_values ag" idx] obtain c
    where c: "locate (state_action_values ag) idx = Inr c"
    using assms cn by (auto simp: mc_step_def ndarray_getitem_def ndarray_setitem_def)
  from cn c show ?thesis by blast
qed

lemma and_then_Inr_iff: "and_then m f = Inr y \<longleftrightarrow> (\<exists>x. m = Inr x \<and> f x = Inr y)"
  by (cases m) simp_all

lemma popleft_Inr:
  "deque_popleft dq = Inr (r, dq') \<Longrightarrow> items dq = r # items dq' \<and> maxlen dq' = maxlen dq"
  by (auto simp: deque_popleft_def split: list.splits)

lemmas example_defs = easy21_def two_pairs_def one_pair_def trained_def init_def zeros_def

lemmas locate_defs = locate_def norm_index_def index_or_raise_def

lemma dom_dict_zip: "length ks = length vs \<Longrightarrow> dom (dict_zip ks vs) = set ks"
proof -
  assume l: "length ks = length vs"
  have "dom (dict_zip ks vs) = set (map fst (zip ks vs))"
    by (simp add: dict_zip_def dom_map_of_conv_image_fst)
  then show ?thesis using l by (simp only: map_fst_zip)
qed

lemma init_action2id: "set (possible_actions (init acts n0 g name)) \<subseteq> dom (action2id (init acts n0 g name))"
  by (simp add: init_def dom_dict_zip)

lemma take_action_Inr:
  assumes "take_action ag state explore u k = Inr (act, ag1)"
  shows "ag1 = ag \<and> act \<in> set (possible_actions ag)"
  using take_action_cases [of ag state explore u k] assms by auto

lemma norm_index_nonneg: "0 \<le> i \<Longrightarrow> i < int n \<Longrightarrow> norm_index n i = Some (nat i)"
  by (simp add: norm_index_def)

lemma argmax_pair: "argmax [x, y] = Inr (if x < y then 1 else 0)"
  by (simp add: argmax_def)

lemma ndarray_take_pair:
  assumes "0 \<le> d" "d < int (ndarray_size arr)" "0 \<le> p" "p < int (ndarray_size arr)"
  shows "ndarray_take arr [d, p] =
    Inr [cells arr (unravel (shape arr) (nat d)), cells arr (unravel (shape arr) (nat p))]"
  using assms by (simp add: norm_index_nonneg index_or_raise_def)

lemma take_action_total:
  assumes "shape (state_action_values ag) = (11, 22, n)"
      and "shape (state_action_visits ag) = (11, 22, n)"
      and "n_actions ag = n" and "length (possible_actions ag) = n" and "2 \<le> n"
      and "0 \<le> fst state" "fst state \<le> 10" "0 \<le> snd state" "snd state \<le> 21"
  shows "\<exists>act. take_action ag state explore u k = Inr (act, ag)"
proof -
  have sz: "ndarray_size (state_action_values ag) = 242 * n"
    "ndarray_size (state_action_visits ag) = 242 * n"
    using assms(1,2) by (simp_all add: ndarray_size_def)
  have b: "fst state < int (242 * n)" "snd state < int (242 * n)"
    using assms(5,7,9) by auto
  have tv: "\<exists>vs. ndarray_take (state_action_visits ag) [fst state, snd state] = Inr vs"
    using ndarray_take_pair [of "fst state" "state_action_visits ag" "snd state"] assms(6,8) b sz
    by simp
  have tq: "\<exists>x y. ndarray_take (state_action_values ag) [fst state, snd state] = Inr [x, y]"
    using ndarray_take_pair [of "fst state" "state_action_values ag" "snd state"] assms(6,8) b sz
    by simp
  from tv obtain e where e: "epsilon ag state = Inr e" by (auto simp: epsilon_def)
  from tq obtain x y where xy: "ndarray_take (state_action_values ag) [fst state, snd state] = Inr [x, y]"
    by blast
  have "k mod n < n" using assms(5) by simp
  then show ?thesis
    using e xy assms(3,4,5)
    by (simp add: take_action_def random_choice_def argmax_pair del: ndarray_take.simps)
qed

lemma observe_records:
  assumes "take_action ag state True u k = Inr (act, ag1)"
      and "set (possible_actions ag) \<subseteq> dom (action2id ag)"
  shows "\<exists>action_id. action2id ag act = Some action_id \<and>
     observe_and_act ag state None False u k =
       Inr (Some act, ag\<lparr>past_states := deque_append (past_states ag) state,
                          past_actions := deque_append (past_actions ag) action_id\<rparr>)"
proof -
  from take_action_Inr [OF assms(1)] have ag1: "ag1 = ag" and act: "act \<in> set (possible_actions ag)"
    by simp_all
  from act assms(2) obtain i where i: "action2id ag act = Some i" by blast
  show ?thesis
    using assms(1) ag1 i by (simp add: observe_and_act_def memorize_known [OF i])
qed

lemma deque_append_items:
  "maxlen dq = 2 \<Longrightarrow>
   items (deque_append dq x) = (if length (items dq) < 2 then items dq else tl (items dq)) @ [x] \<and>
   maxlen (deque_append dq x) = 2"
  by (simp add: deque_append_def)

lemma observe_first_Inr:
  assumes "observe_and_act ag state None False u k = Inr (act, ag2)"
  shows "\<exists>a i. act = Some a \<and> action2id ag a = Some i \<and>
           ag2 = ag\<lparr>past_states := deque_append (past_states ag) state,
                     past_actions := deque_append (past_actions ag) i\<rparr>"
proof -
  from assms obtain a ag1 ag2' where
    t: "take_action ag state True u k = Inr (a, ag1)" and
    m: "memorize ag1 state a = Inr ag2'" and r: "act = Some a" "ag2 = ag2'"
    by (auto simp: observe_and_act_def and_then_Inr_iff split: prod.splits)
  from take_action_Inr [OF t] have "ag1 = ag" by simp
  with m r show ?thesis
    by (auto simp: memorize_def split: option.splits)
qed

lemma clear_cache_buffers:
  "past_states (clear_cache ag) = Deque [] 2 \<and> past_actions (clear_cache ag) = Deque [] 2 \<and>
   past_returns (clear_cache ag) = Deque [] 2"
  by (simp add: clear_cache_def)

lemma fresh_window:
  assumes "past_states ag = Deque [] 2" "past_actions ag = Deque [] 2" "past_returns ag = Deque [] 2"
      and "observe_and_act ag state None False u k = Inr (act, ag2)"
  shows "items (past_states ag2) = [state] \<and> length (items (past_actions ag2)) = 1 \<and>
         items (past_returns ag2) = []"
  using observe_first_Inr [OF assms(4)] assms(1-3) by (auto simp: deque_append_def)

lemma easy21_explores: "take_action easy21 (5, 10) True 0 1 = Inr (''stick'', easy21)"
  by (simp add: take_action_def epsilon_def random_choice_def ndarray_size_def unravel_def
      example_defs locate_defs)

lemma full_window_explores:
  "take_action (two_pairs trained 1) (7, 8) True 0 1 = Inr (''stick'', two_pairs trained 1)"
  by (simp add: take_action_def epsilon_def random_choice_def ndarray_size_def unravel_def
      example_defs locate_defs)

lemma trained_reachable:
  "observe_and_act easy21 (5, 10) None False 0 1 =
     Inr (Some ''stick'', easy21\<lparr>past_states := Deque [(5, 10)] 2, past_actions := Deque [1] 2\<rparr>) \<and>
   observe_and_act (easy21\<lparr>past_states := Deque [(5, 10)] 2, past_actions := Deque [1] 2\<rparr>)
     (0, 0) (Some 1) True 0 0 = Inr (None, trained)"
proof
  have id: "action2id easy21 ''stick'' = Some 1"
    by (simp add: example_defs dict_zip_def)
  show "observe_and_act easy21 (5, 10) None False 0 1 =
     Inr (Some ''stick'', easy21\<lparr>past_states := Deque [(5, 10)] 2, past_actions := Deque [1] 2\<rparr>)"
    using easy21_explores id
    by (simp add: observe_and_act_def memorize_def) (simp add: example_defs deque_append_def)
  let ?ag = "easy21\<lparr>past_states := Deque [(5, 10)] 2, past_actions := Deque [1] 2\<rparr>"
  have "update (?ag\<lparr>past_returns := deque_append (past_returns ?ag) 1\<rparr>) True =
    Inr (trained\<lparr>past_states := Deque [(5, 10)] 2, past_actions := Deque [1] 2\<rparr>)"
    using update_last [of "?ag\<lparr>past_returns := deque_append (past_returns ?ag) 1\<rparr>"
        1 "[]" "(5, 10)" 1 "[]" _ _ "(5, 10, 1)" "(5, 10, 1)"]
    by (simp add: example_defs locate_defs deque_append_def)
  then show "observe_and_act ?ag (0, 0) (Some 1) True 0 0 = Inr (None, trained)"
    by (simp add: observe_and_act_def clear_cache_def) (simp add: example_defs)
qed

lemma take_action_greedy_flat:
  assumes "0 \<le> d" "d < int (ndarray_size (state_action_values ag))"
      and "0 \<le> p" "p < int (ndarray_size (state_action_values ag))"
      and "epsilon ag (d, p) = Inr e"
  shows "take_action ag (d, p) False u k =
     (let action_id =
        (if cells (state_action_values ag) (unravel (shape (state_action_values ag)) (nat d))
            < cells (state_action_values ag) (unravel (shape (state_action_values ag)) (nat p))
         then 1 else 0)
      in if action_id < length (possible_actions ag)
         then Inr (possible_actions ag ! action_id, ag) else Inl IndexError)"
  using assms(5) ndarray_take_pair [OF assms(1-4)]
  by (simp add: take_action_def argmax_pair del: ndarray_take.simps)

lemma epsilon_flat:
  assumes "0 \<le> d" "d < int (ndarray_size (state_action_visits ag))"
      and "0 \<le> p" "p < int (ndarray_size (state_action_visits ag))"
  shows "epsilon ag (d, p) =
     Inr (n_0 ag / (n_0 ag
        + (cells (state_action_visits ag) (unravel (shape (state_action_visits ag)) (nat d))
        + cells (state_action_visits ag) (unravel (shape (state_action_visits ag)) (nat p)))))"
  using ndarray_take_pair [OF assms]
  by (simp add: epsilon_def del: ndarray_take.simps)

lemma upt_0_2: "[0..<2] = [0, Suc 0]"
  by (simp add: numeral_2_eq_2)

lemma norm_index_less: "norm_index n i = Some j \<Longrightarrow> j < n"
  by (auto simp: norm_index_def split: if_splits)

lemma locate_in_shape:
  assumes "locate arr idx = Inr (i, j, k)" and "shape arr = (s1, s2, s3)"
  shows "i < s1 \<and> j < s2 \<and> k < s3"
proof -
  obtain a b c where idx: "idx = (a, b, c)" by (cases idx)
  from assms have "norm_index s1 a = Some i \<and> norm_index s2 b = Some j \<and> norm_index s3 c = Some k"
    by (auto simp: locate_def idx index_or_raise_def and_then_Inr_iff split: option.splits)
  then show ?thesis by (auto dest: norm_index_less)
qed

lemma asarray_tolist_shape:
  assumes "ndarray_size arr \<noteq> 0"
  shows "shape (asarray (ndarray_tolist arr)) = shape arr"
proof -
  obtain s1 s2 s3 where sh: "shape arr = (s1, s2, s3)" by (cases "shape arr")
  with assms have pos: "0 < s1" "0 < s2" "0 < s3" by (simp_all add: ndarray_size_def)
  show ?thesis
    using pos by (simp add: asarray_def ndarray_tolist_def sh upt_conv_Cons)
qed

lemma asarray_tolist_cells:
  assumes "shape arr = (s1, s2, s3)" and "i < s1" "j < s2" "k < s3"
  shows "cells (asarray (ndarray_tolist arr)) (i, j, k) = cells arr (i, j, k)"
  using assms by (simp add: asarray_def ndarray_tolist_def)

lemma asarray_tolist_getitem:
  assumes "ndarray_size arr \<noteq> 0"
  shows "ndarray_getitem (asarray (ndarray_tolist arr)) idx = ndarray_getitem arr idx"
proof -
  obtain s1 s2 s3 where sh: "shape arr = (s1, s2, s3)" by (cases "shape arr")
  have l: "locate (asarray (ndarray_tolist arr)) idx = locate arr idx"
    by (rule locate_same_shape) (rule asarray_tolist_shape [OF assms])
  from locate_cases [of arr idx] show ?thesis
  proof
    assume "locate arr idx = Inl IndexError"
    with l show ?thesis by (simp add: ndarray_getitem_def)
  next
    assume "\<exists>c. locate arr idx = Inr c"
    then obtain i j k where c: "locate arr idx = Inr (i, j, k)" by (metis prod_cases3)
    from locate_in_shape [OF c sh] asarray_tolist_cells [OF sh, of i j k]
    have "cells (asarray (ndarray_tolist arr)) (i, j, k) = cells arr (i, j, k)" by simp
    with l c show ?thesis by (simp add: ndarray_getitem_def)
  qed
qed

lemma pkl_is_not_png: "file_path prefix iteration ''png'' \<noteq> file_path prefix iteration ''pkl''"
  by (simp add: file_path_def)

subsection \<open>The non-terminal update\<close>

text \<open>
  Claim C3. With two recorded pairs and a pending reward, a non-terminal \<open>_update\<close>
  returns; it pops the oldest reward \<open>r\<close>, adds 1 to \<open>N[s, a]\<close> of the older pair and then
  adds \<open>(r + gamma * Q[s', a'] - Q[s, a]) / N[s, a]\<close> to \<open>Q[s, a]\<close>, with the count just
  incremented and the values read before the write. From \<open>N = 0\<close>, \<open>Q = 0\<close>, successor
  value 0, \<open>gamma = 1\<close> and \<open>r = 1\<close> this gives \<open>N = 1\<close> and \<open>Q = 1\<close>; from there, with
  \<open>r = 0\<close> and successor value 0, it gives \<open>N = 2\<close> and \<open>Q = 1/2\<close>. The hypotheses say that
  the pairs and the reward are there and that the indices lie within the tables.
\<close>

theorem update_nonterminal:
  assumes "items (past_states ag) = [s, s']"
      and "items (past_actions ag) = [a, a']"
      and "items (past_returns ag) = r # rs"
      and "locate (state_action_visits ag) (fst s, snd s, int a) = Inr cn"
      and "locate (state_action_values ag) (fst s, snd s, int a) = Inr c"
      and "locate (state_action_values ag) (fst s', snd s', int a') = Inr c'"
  shows "\<exists>ag'. update ag False = Inr ag' \<and>
     items (past_returns ag') = rs \<and>
     cells (state_action_visits ag') =
       (cells (state_action_visits ag))(cn := cells (state_action_visits ag) cn + 1) \<and>
     cells (state_action_values ag') =
       (cells (state_action_values ag))(c := cells (state_action_values ag) c +
          (r + gamma ag * cells (state_action_values ag) c' - cells (state_action_values ag) c)
          / cells (state_action_visits ag') cn) \<and>
     (cells (state_action_visits ag) cn = 0 \<and> cells (state_action_values ag) c = 0 \<and>
      cells (state_action_values ag) c' = 0 \<and> gamma ag = 1 \<and> r = 1 \<longrightarrow>
        cells (state_action_visits ag') cn = 1 \<and> cells (state_action_values ag') c = 1) \<and>
     (cells (state_action_visits ag) cn = 1 \<and> cells (state_action_values ag) c = 1 \<and>
      cells (state_action_values ag) c' = 0 \<and> r = 0 \<longrightarrow>
        cells (state_action_visits ag') cn = 2 \<and> cells (state_action_values ag') c = 1 / 2)"
  using update_two [OF assms] by simp

theorem update_nonterminal_witness:
  "(\<exists>ag'. update (two_pairs easy21 1) False = Inr ag' \<and>
      cells (state_action_visits ag') (5, 10, 1) = 1 \<and>
      cells (state_action_values ag') (5, 10, 1) = 1) \<and>
   (\<exists>ag'. update (two_pairs trained 0) False = Inr ag' \<and>
      cells (state_action_visits ag') (5, 10, 1) = 2 \<and>
      cells (state_action_values ag') (5, 10, 1) = 1 / 2)"
proof
  show "\<exists>ag'. update (two_pairs easy21 1) False = Inr ag' \<and>
      cells (state_action_visits ag') (5, 10, 1) = 1 \<and>
      cells (state_action_values ag') (5, 10, 1) = 1"
    using update_nonterminal [of "two_pairs easy21 1" "(5, 10)" "(6, 12)" 1 0 1 "[]"
          "(5, 10, 1)" "(5, 10, 1)" "(6, 12, 0)"]
    by (auto simp: example_defs locate_defs)
  show "\<exists>ag'. update (two_pairs trained 0) False = Inr ag' \<and>
      cells (state_action_visits ag') (5, 10, 1) = 2 \<and>
      cells (state_action_values ag') (5, 10, 1) = 1 / 2"
    using update_nonterminal [of "two_pairs trained 0" "(5, 10)" "(6, 12)" 1 0 0 "[]"
          "(5, 10, 1)" "(5, 10, 1)" "(6, 12, 0)"]
    by (auto simp: example_defs locate_defs)
qed

subsection \<open>The terminal update\<close>

text \<open>
  Claim C4. A terminal \<open>_update\<close> with a pending reward \<open>r\<close> works on the only recorded
  pair, or on the newer of two: it adds 1 to its count and then adds \<open>(r - Q) / N\<close> to its
  value, with no successor term. On a pair never visited before, \<open>r = -1\<close> gives \<open>N = 1\<close>
  and \<open>Q = -1\<close>.
\<close>

theorem update_terminal:
  assumes "items (past_returns ag) = r # rs"
      and "(items (past_states ag) = [s] \<and> items (past_actions ag) = a # as) \<or>
           (items (past_states ag) = [s0, s] \<and> items (past_actions ag) = [a0, a])"
      and "locate (state_action_visits ag) (fst s, snd s, int a) = Inr cn"
      and "locate (state_action_values ag) (fst s, snd s, int a) = Inr c"
  shows "\<exists>ag'. update ag True = Inr ag' \<and>
     items (past_returns ag') = rs \<and>
     cells (state_action_visits ag') =
       (cells (state_action_visits ag))(cn := cells (state_action_visits ag) cn + 1) \<and>
     cells (state_action_values ag') =
       (cells (state_action_values ag))(c := cells (state_action_values ag) c +
          (r - cells (state_action_values ag) c) / cells (state_action_visits ag') cn) \<and>
     (cells (state_action_visits ag) cn = 0 \<and> r = - 1 \<longrightarrow>
        cells (state_action_visits ag') cn = 1 \<and> cells (state_action_values ag') c = - 1)"
  using update_last [OF assms] by simp

theorem update_terminal_witness:
  "(\<exists>ag'. update (one_pair easy21 (- 1)) True = Inr ag' \<and>
      cells (state_action_visits ag') (5, 10, 1) = 1 \<and>
      cells (state_action_values ag') (5, 10, 1) = - 1) \<and>
   (\<exists>ag'. update (two_pairs trained (- 1)) True = Inr ag' \<and>
      cells (state_action_visits ag') (6, 12, 0) = 1 \<and>
      cells (state_action_values ag') (6, 12, 0) = - 1 \<and>
      cells (state_action_visits ag') (5, 10, 1) = 1 \<and>
      cells (state_action_values ag') (5, 10, 1) = 1)"
proof
  show "\<exists>ag'. update (one_pair easy21 (- 1)) True = Inr ag' \<and>
      cells (state_action_visits ag') (5, 10, 1) = 1 \<and>
      cells (state_action_values ag') (5, 10, 1) = - 1"
    using update_terminal [of "one_pair easy21 (- 1)" "- 1" "[]" "(5, 10)" 1 "[]" _ _
          "(5, 10, 1)" "(5, 10, 1)"]
    by (auto simp: example_defs locate_defs)
  show "\<exists>ag'. update (two_pairs trained (- 1)) True = Inr ag' \<and>
      cells (state_action_visits ag') (6, 12, 0) = 1 \<and>
      cells (state_action_values ag') (6, 12, 0) = - 1 \<and>
      cells (state_action_visits ag') (5, 10, 1) = 1 \<and>
      cells (state_action_values ag') (5, 10, 1) = 1"
    using update_terminal [of "two_pairs trained (- 1)" "- 1" "[]" "(6, 12)" 0 _ "(5, 10)" 1
          "(6, 12, 0)" "(6, 12, 0)"]
    by (auto simp: example_defs locate_defs)
qed

subsection \<open>The update on an empty history\<close>

text \<open>
  Claim C9. When no state is recorded, \<open>_update\<close> raises IndexError, whether terminal or
  not, and so does \<open>observe_and_act\<close> called with a reward: on termination the update finds
  no pair at all; otherwise the call records one pair and the update needs two. The second
  hypothesis holds of every agent the constructor builds: each possible action has an id.
\<close>

theorem update_empty_history:
  assumes "items (past_states ag) = []"
      and "set (possible_actions ag) \<subseteq> dom (action2id ag)"
  shows "update ag terminate = Inl IndexError \<and>
         observe_and_act ag state (Some r) True u k = Inl IndexError \<and>
         observe_and_act ag state (Some r) False u k = Inl IndexError"
proof -
  have 1: "update ag terminate = Inl IndexError"
    using assms(1) by (simp add: update_def history_empty)
  have 2: "observe_and_act ag state (Some r) True u k = Inl IndexError"
    using assms(1) by (simp add: observe_and_act_def update_def history_empty)
  have 3: "observe_and_act ag state (Some r) False u k = Inl IndexError"
  proof -
    from take_action_cases [of ag state True u k] show ?thesis
    proof
      assume "take_action ag state True u k = Inl IndexError"
      then show ?thesis by (simp add: observe_and_act_def)
    next
      assume "\<exists>i<length (possible_actions ag).
                take_action ag state True u k = Inr (possible_actions ag ! i, ag)"
      then obtain i where i: "i < length (possible_actions ag)"
        and t: "take_action ag state True u k = Inr (possible_actions ag ! i, ag)" by blast
      from i assms(2) obtain j where j: "action2id ag (possible_actions ag ! i) = Some j"
        by (meson domD nth_mem subsetD)
      let ?ag2 = "ag\<lparr>past_states := deque_append (past_states ag) state,
                      past_actions := deque_append (past_actions ag) j\<rparr>"
      let ?ag3 = "?ag2\<lparr>past_returns := deque_append (past_returns ?ag2) r\<rparr>"
      have "length (items (past_states ?ag3)) \<le> 1"
        using deque_append_empty_length [OF assms(1)] by simp
      then have "history ?ag3 False = Inl IndexError" by (rule history_one_nonterminal)
      then have "update ?ag3 False = Inl IndexError" by (simp add: update_def)
      then show ?thesis using t by (simp add: observe_and_act_def memorize_known [OF j])
    qed
  qed
  from 1 2 3 show ?thesis by simp
qed

theorem update_empty_history_witness:
  "update easy21 False = Inl IndexError \<and>
   observe_and_act easy21 (5, 10) (Some 1) True 0 0 = Inl IndexError \<and>
   observe_and_act easy21 (5, 10) (Some 1) False 0 0 = Inl IndexError"
proof -
  have h1: "items (past_states easy21) = []" by (simp add: example_defs)
  have h2: "set (possible_actions easy21) \<subseteq> dom (action2id easy21)"
    unfolding easy21_def by (rule init_action2id)
  from update_empty_history [OF h1 h2] show ?thesis by blast
qed

subsection \<open>What one update writes\<close>

text \<open>
  Claim C10. An \<open>_update\<close> that returns has popped exactly one reward, the oldest; it has
  written one cell of \<open>Q\<close> and, in \<open>N\<close>, the cell of the same index, whose count it has
  raised by 1. Every other cell of both tables, their shapes, \<open>gamma\<close>, \<open>n_0\<close>, the two
  id mappings, the action list and the recorded states and actions are as before.
\<close>

theorem update_frame:
  assumes "update ag terminate = Inr ag'"
  shows "\<exists>r idx cq cn v.
      items (past_returns ag) = r # items (past_returns ag') \<and>
      maxlen (past_returns ag') = maxlen (past_returns ag) \<and>
      locate (state_action_values ag) idx = Inr cq \<and>
      locate (state_action_visits ag) idx = Inr cn \<and>
      state_action_values ag' =
        (state_action_values ag)\<lparr>cells := (cells (state_action_values ag))(cq := v)\<rparr> \<and>
      state_action_visits ag' =
        (state_action_visits ag)\<lparr>cells :=
           (cells (state_action_visits ag))(cn := cells (state_action_visits ag) cn + 1)\<rparr> \<and>
      gamma ag' = gamma ag \<and> n_0 ag' = n_0 ag \<and>
      action2id ag' = action2id ag \<and> id2action ag' = id2action ag \<and>
      possible_actions ag' = possible_actions ag \<and> n_actions ag' = n_actions ag \<and>
      base_name ag' = base_name ag \<and>
      past_states ag' = past_states ag \<and> past_actions ag' = past_actions ag"
proof -
  from assms obtain older d1 p1 a1 r returns where
    pop: "deque_popleft (past_returns ag) = Inr (r, returns)" and
    step: "(if \<not> terminate then
         (case older of
            None \<Rightarrow> Inl UnboundLocalError
          | Some ((d_H, p_H), a) \<Rightarrow>
              td_step (ag\<lparr>past_returns := returns\<rparr>)
                (d_H, p_H, int a) (d1, p1, int a1) r)
       else mc_step (ag\<lparr>past_returns := returns\<rparr>) (d1, p1, int a1) r) = Inr ag'"
    by (auto simp: update_def and_then_Inr_iff split: prod.splits)
  note p = popleft_Inr [OF pop]
  let ?ag1 = "ag\<lparr>past_returns := returns\<rparr>"
  show ?thesis
  proof (cases terminate)
    case True
    with step have m: "mc_step ?ag1 (d1, p1, int a1) r = Inr ag'" by simp
    from mc_step_Inr [OF m] obtain cn c where
      l: "locate (state_action_visits ag) (d1, p1, int a1) = Inr cn"
         "locate (state_action_values ag) (d1, p1, int a1) = Inr c" by auto
    have "mc_step ?ag1 (d1, p1, int a1) r = Inr ag'" by (rule m)
    then have ag': "ag' = ?ag1\<lparr>state_action_values := (state_action_values ag)\<lparr>cells :=
               (cells (state_action_values ag))(c := cells (state_action_values ag) c +
                  (r - cells (state_action_values ag) c)
                  / (cells (state_action_visits ag) cn + 1))\<rparr>,
             state_action_visits := (state_action_visits ag)\<lparr>cells :=
               (cells (state_action_visits ag))(cn := cells (state_action_visits ag) cn + 1)\<rparr>\<rparr>"
      using mc_step_located [of ?ag1 "(d1, p1, int a1)" cn c r] l by simp
    show ?thesis
      apply (rule exI [of _ r], rule exI [of _ "(d1, p1, int a1)"], rule exI [of _ c],
          rule exI [of _ cn], rule exI [of _ "cells (state_action_values ag) c +
                  (r - cells (state_action_values ag) c)
                  / (cells (state_action_visits ag) cn + 1)"])
      using p l ag' by simp
  next
    case False
    with step obtain d p a where
      m: "td_step ?ag1 (d, p, int a) (d1, p1, int a1) r = Inr ag'"
      by (auto split: option.splits)
    from td_step_Inr [OF m] obtain cn c c' where
      l: "locate (state_action_visits ag) (d, p, int a) = Inr cn"
         "locate (state_action_values ag) (d, p, int a) = Inr c"
         "locate (state_action_values ag) (d1, p1, int a1) = Inr c'" by auto
    have ag': "ag' = ?ag1\<lparr>state_action_values := (state_action_values ag)\<lparr>cells :=
               (cells (state_action_values ag))(c := cells (state_action_values ag) c +
                  (r + gamma ag * cells (state_action_values ag) c' - cells (state_action_values ag) c)
                  / (cells (state_action_visits ag) cn + 1))\<rparr>,
             state_action_visits := (state_action_visits ag)\<lparr>cells :=
               (cells (state_action_visits ag))(cn := cells (state_action_visits ag) cn + 1)\<rparr>\<rparr>"
      using td_step_located [of ?ag1 "(d, p, int a)" cn c "(d1, p1, int a1)" c' r] l m by simp
    show ?thesis
      apply (rule exI [of _ r], rule exI [of _ "(d, p, int a)"], rule exI [of _ c],
          rule exI [of _ cn], rule exI [of _ "cells (state_action_values ag) c +
                  (r + gamma ag * cells (state_action_values ag) c' - cells (state_action_values ag) c)
                  / (cells (state_action_visits ag) cn + 1)"])
      using p l ag' by simp
  qed
qed

theorem update_frame_witness:
  "update (two_pairs trained 3) False =
     Inr ((two_pairs trained 3)
          \<lparr>state_action_values := \<lparr>shape = (11, 22, 2), cells = (\<lambda>c. 0)((5, 10, 1) := 2)\<rparr>,
           state_action_visits := \<lparr>shape = (11, 22, 2), cells = (\<lambda>c. 0)((5, 10, 1) := 2)\<rparr>,
           past_returns := Deque [] 2\<rparr>) \<and>
   (\<exists>r idx cq cn v.
      [3] = r # [] \<and>
      locate (state_action_values (two_pairs trained 3)) idx = Inr cq \<and>
      locate (state_action_visits (two_pairs trained 3)) idx = Inr cn \<and>
      \<lparr>shape = (11, 22, 2), cells = (\<lambda>c. 0)((5, 10, 1) := 2)\<rparr> =
        (state_action_values (two_pairs trained 3))
          \<lparr>cells := (cells (state_action_values (two_pairs trained 3)))(cq := v)\<rparr> \<and>
      \<lparr>shape = (11, 22, 2), cells = (\<lambda>c. 0)((5, 10, 1) := 2)\<rparr> =
        (state_action_visits (two_pairs trained 3))
          \<lparr>cells := (cells (state_action_visits (two_pairs trained 3)))
             (cn := cells (state_action_visits (two_pairs trained 3)) cn + 1)\<rparr>)"
proof -
  have u: "update (two_pairs trained 3) False =
     Inr ((two_pairs trained 3)
          \<lparr>state_action_values := \<lparr>shape = (11, 22, 2), cells = (\<lambda>c. 0)((5, 10, 1) := 2)\<rparr>,
           state_action_visits := \<lparr>shape = (11, 22, 2), cells = (\<lambda>c. 0)((5, 10, 1) := 2)\<rparr>,
           past_returns := Deque [] 2\<rparr>)"
    using update_two [of "two_pairs trained 3" "(5, 10)" "(6, 12)" 1 0 3 "[]"
          "(5, 10, 1)" "(5, 10, 1)" "(6, 12, 0)"]
    by (simp add: example_defs locate_defs)
  from update_frame [OF u] show ?thesis using u by (simp add: example_defs)
qed

subsection \<open>Choosing an action changes nothing\<close>

text \<open>
  Claim C8. \<open>take_action\<close> either raises IndexError or returns an action together with
  the agent it was given: tables, visit counts and history buffers are those before the
  call.
\<close>

theorem take_action_no_side_effect:
  "take_action ag state explore u k = Inl IndexError \<or>
   (\<exists>act. take_action ag state explore u k = Inr (act, ag))"
  using take_action_cases [of ag state explore u k] by blast

subsection \<open>Observing without a reward\<close>

text \<open>
  Claim C7. \<open>observe_and_act\<close> with no reward and \<open>terminate=False\<close> returns the action
  that \<open>take_action\<close> yields and records the pair: on buffers of capacity 2 the new state
  and the action's id become the last items of the history, after the items held before
  when there were fewer than two, and after the newer of the two otherwise, the older one
  being dropped. Both tables and the pending rewards are as they were. An action is yielded,
  and so the call returns, for every state within bounds of an agent whose tables have the
  shape \<open>(11, 22, n_actions)\<close> with two actions or more. The hypothesis holds of every
  agent the constructor builds: each possible action has an id.
\<close>

theorem observe_without_reward:
  assumes "set (possible_actions ag) \<subseteq> dom (action2id ag)"
  shows "(\<forall>act ag1. take_action ag state True u k = Inr (act, ag1) \<longrightarrow>
      (\<exists>ag' action_id.
         observe_and_act ag state None False u k = Inr (Some act, ag') \<and>
         action2id ag act = Some action_id \<and>
         past_states ag' = deque_append (past_states ag) state \<and>
         past_actions ag' = deque_append (past_actions ag) action_id \<and>
         (maxlen (past_states ag) = 2 \<longrightarrow>
            items (past_states ag') =
              (if length (items (past_states ag)) < 2 then items (past_states ag)
               else tl (items (past_states ag))) @ [state] \<and>
            maxlen (past_states ag') = 2) \<and>
         (maxlen (past_actions ag) = 2 \<longrightarrow>
            items (past_actions ag') =
              (if length (items (past_actions ag)) < 2 then items (past_actions ag)
               else tl (items (past_actions ag))) @ [action_id] \<and>
            maxlen (past_actions ag') = 2) \<and>
         past_returns ag' = past_returns ag \<and>
         state_action_values ag' = state_action_values ag \<and>
         state_action_visits ag' = state_action_visits ag)) \<and>
    (shape (state_action_values ag) = (11, 22, n_actions ag) \<and>
     shape (state_action_visits ag) = (11, 22, n_actions ag) \<and>
     length (possible_actions ag) = n_actions ag \<and> 2 \<le> n_actions ag \<and>
     0 \<le> fst state \<and> fst state \<le> 10 \<and> 0 \<le> snd state \<and> snd state \<le> 21 \<longrightarrow>
      (\<exists>act ag' action_id.
         observe_and_act ag state None False u k = Inr (Some act, ag') \<and>
         action2id ag act = Some action_id \<and>
         past_states ag' = deque_append (past_states ag) state \<and>
         past_actions ag' = deque_append (past_actions ag) action_id \<and>
         (maxlen (past_states ag) = 2 \<longrightarrow>
            items (past_states ag') =
              (if length (items (past_states ag)) < 2 then items (past_states ag)
               else tl (items (past_states ag))) @ [state] \<and>
            maxlen (past_states ag') = 2) \<and>
         (maxlen (past_actions ag) = 2 \<longrightarrow>
            items (past_actions ag') =
              (if length (items (past_actions ag)) < 2 then items (past_actions ag)
               else tl (items (past_actions ag))) @ [action_id] \<and>
            maxlen (past_actions ag') = 2) \<and>
         past_returns ag' = past_returns ag \<and>
         state_action_values ag' = state_action_values ag \<and>
         state_action_visits ag' = state_action_visits ag))"
proof (intro conjI allI impI)
  fix act ag1
  assume "take_action ag state True u k = Inr (act, ag1)"
  from observe_records [OF this assms] show "\<exists>ag' action_id.
         observe_and_act ag state None False u k = Inr (Some act, ag') \<and>
         action2id ag act = Some action_id \<and>
         past_states ag' = deque_append (past_states ag) state \<and>
         past_actions ag' = deque_append (past_actions ag) action_id \<and>
         (maxlen (past_states ag) = 2 \<longrightarrow>
            items (past_states ag') =
              (if length (items (past_states ag)) < 2 then items (past_states ag)
               else tl (items (past_states ag))) @ [state] \<and>
            maxlen (past_states ag') = 2) \<and>
         (maxlen (past_actions ag) = 2 \<longrightarrow>
            items (past_actions ag') =
              (if length (items (past_actions ag)) < 2 then items (past_actions ag)
               else tl (items (past_actions ag))) @ [action_id] \<and>
            maxlen (past_actions ag') = 2) \<and>
         past_returns ag' = past_returns ag \<and>
         state_action_values ag' = state_action_values ag \<and>
         state_action_visits ag' = state_action_visits ag"
    by (auto simp: deque_append_items)
next
  assume wf: "shape (state_action_values ag) = (11, 22, n_actions ag) \<and>
     shape (state_action_visits ag) = (11, 22, n_actions ag) \<and>
     length (possible_actions ag) = n_actions ag \<and> 2 \<le> n_actions ag \<and>
     0 \<le> fst state \<and> fst state \<le> 10 \<and> 0 \<le> snd state \<and> snd state \<le> 21"
  then obtain act where "take_action ag state True u k = Inr (act, ag)"
    using take_action_total [of ag "n_actions ag" state True u k] by auto
  from observe_records [OF this assms] show "\<exists>act ag' action_id.
         observe_and_act ag state None False u k = Inr (Some act, ag') \<and>
         action2id ag act = Some action_id \<and>
         past_states ag' = deque_append (past_states ag) state \<and>
         past_actions ag' = deque_append (past_actions ag) action_id \<and>
         (maxlen (past_states ag) = 2 \<longrightarrow>
            items (past_states ag') =
              (if length (items (past_states ag)) < 2 then items (past_states ag)
               else tl (items (past_states ag))) @ [state] \<and>
            maxlen (past_states ag') = 2) \<and>
         (maxlen (past_actions ag) = 2 \<longrightarrow>
            items (past_actions ag') =
              (if length (items (past_actions ag)) < 2 then items (past_actions ag)
               else tl (items (past_actions ag))) @ [action_id] \<and>
            maxlen (past_actions ag') = 2) \<and>
         past_returns ag' = past_returns ag \<and>
         state_action_values ag' = state_action_values ag \<and>
         state_action_visits ag' = state_action_visits ag"
    by (auto simp: deque_append_items)
qed

theorem observe_without_reward_witness:
  "(\<exists>ag'. observe_and_act easy21 (5, 10) None False 0 1 = Inr (Some ''stick'', ag') \<and>
     past_states ag' = Deque [(5, 10)] 2 \<and> past_actions ag' = Deque [1] 2 \<and>
     past_returns ag' = Deque [] 2 \<and>
     state_action_values ag' = state_action_values easy21 \<and>
     state_action_visits ag' = state_action_visits easy21) \<and>
   (\<exists>ag'. observe_and_act (two_pairs trained 1) (7, 8) None False 0 1 = Inr (Some ''stick'', ag') \<and>
     past_states ag' = Deque [(6, 12), (7, 8)] 2 \<and> past_actions ag' = Deque [0, 1] 2 \<and>
     past_returns ag' = Deque [1] 2 \<and>
     state_action_values ag' = state_action_values trained \<and>
     state_action_visits ag' = state_action_visits trained) \<and>
   (\<exists>act ag'. observe_and_act trained (5, 10) None False (1 / 2) 0 = Inr (Some act, ag') \<and>
     past_states ag' = Deque [(5, 10)] 2 \<and>
     state_action_values ag' = state_action_values trained \<and>
     state_action_visits ag' = state_action_visits trained)"
proof (intro conjI)
  have h2: "set (possible_actions easy21) \<subseteq> dom (action2id easy21)"
    unfolding easy21_def by (rule init_action2id)
  have id: "action2id easy21 ''stick'' = Some 1"
    by (simp add: example_defs dict_zip_def)
  from observe_without_reward [OF h2, of "(5, 10)" 0 1] easy21_explores id
  show "\<exists>ag'. observe_and_act easy21 (5, 10) None False 0 1 = Inr (Some ''stick'', ag') \<and>
     past_states ag' = Deque [(5, 10)] 2 \<and> past_actions ag' = Deque [1] 2 \<and>
     past_returns ag' = Deque [] 2 \<and>
     state_action_values ag' = state_action_values easy21 \<and>
     state_action_visits ag' = state_action_visits easy21"
    by (auto simp: example_defs deque_append_def)
next
  have h2: "set (possible_actions (two_pairs trained 1)) \<subseteq> dom (action2id (two_pairs trained 1))"
    using init_action2id [of "[''hit'', ''stick'']" 100 1 "''td_learning''"]
    by (simp add: example_defs)
  have id: "action2id (two_pairs trained 1) ''stick'' = Some 1"
    by (simp add: example_defs dict_zip_def)
  from observe_without_reward [OF h2, of "(7, 8)" 0 1] full_window_explores
  obtain ag' action_id where r:
    "observe_and_act (two_pairs trained 1) (7, 8) None False 0 1 = Inr (Some ''stick'', ag')"
    "action2id (two_pairs trained 1) ''stick'' = Some action_id"
    "maxlen (past_states (two_pairs trained 1)) = 2 \<longrightarrow>
       items (past_states ag') =
         (if length (items (past_states (two_pairs trained 1))) < 2
          then items (past_states (two_pairs trained 1))
          else tl (items (past_states (two_pairs trained 1)))) @ [(7, 8)] \<and>
       maxlen (past_states ag') = 2"
    "maxlen (past_actions (two_pairs trained 1)) = 2 \<longrightarrow>
       items (past_actions ag') =
         (if length (items (past_actions (two_pairs trained 1))) < 2
          then items (past_actions (two_pairs trained 1))
          else tl (items (past_actions (two_pairs trained 1)))) @ [action_id] \<and>
       maxlen (past_actions ag') = 2"
    "past_returns ag' = past_returns (two_pairs trained 1)"
    "state_action_values ag' = state_action_values (two_pairs trained 1)"
    "state_action_visits ag' = state_action_visits (two_pairs trained 1)"
    by blast
  from r(2) id have a: "action_id = 1" by simp
  have "past_states ag' = Deque [(6, 12), (7, 8)] 2"
    using r(3) by (cases "past_states ag'") (simp add: example_defs)
  moreover have "past_actions ag' = Deque [0, 1] 2"
    using r(4) a by (cases "past_actions ag'") (simp add: example_defs)
  moreover have "past_returns ag' = Deque [1] 2"
    "state_action_values ag' = state_action_values trained"
    "state_action_visits ag' = state_action_visits trained"
    using r(5-7) by (simp_all add: example_defs)
  ultimately show "\<exists>ag'. observe_and_act (two_pairs trained 1) (7, 8) None False 0 1
       = Inr (Some ''stick'', ag') \<and>
     past_states ag' = Deque [(6, 12), (7, 8)] 2 \<and> past_actions ag' = Deque [0, 1] 2 \<and>
     past_returns ag' = Deque [1] 2 \<and>
     state_action_values ag' = state_action_values trained \<and>
     state_action_visits ag' = state_action_visits trained"
    using r(1) by blast
next
  have h2: "set (possible_actions trained) \<subseteq> dom (action2id trained)"
    using init_action2id [of "[''hit'', ''stick'']" 100 1 "''td_learning''"]
    by (simp add: example_defs)
  have wf: "shape (state_action_values trained) = (11, 22, n_actions trained) \<and>
     shape (state_action_visits trained) = (11, 22, n_actions trained) \<and>
     length (possible_actions trained) = n_actions trained \<and> 2 \<le> n_actions trained \<and>
     (0::int) \<le> fst (5, 10) \<and> fst (5, 10) \<le> (10::int) \<and>
     (0::int) \<le> snd (5, 10) \<and> snd (5, 10) \<le> (21::int)"
    by (simp add: example_defs)
  from observe_without_reward [OF h2, of "(5, 10)" "1 / 2" 0] wf
  show "\<exists>act ag'. observe_and_act trained (5, 10) None False (1 / 2) 0 = Inr (Some act, ag') \<and>
     past_states ag' = Deque [(5, 10)] 2 \<and>
     state_action_values ag' = state_action_values trained \<and>
     state_action_visits ag' = state_action_visits trained"
    by (auto simp: example_defs deque_append_def)
qed

subsection \<open>Observing at termination\<close>

text \<open>
  Claim C6, amended. \<open>observe_and_act\<close> with \<open>terminate=True\<close> returns \<open>None\<close> and leaves
  the three buffers as empty deques of capacity 2, so that the next non-terminal call
  records the first pair of a new window, whenever no reward is passed or the update on the
  recorded history returns. When a reward is passed and the update raises, as it does on an
  empty history, the call raises too and returns nothing. The claim as first stated, for
  every agent and every reward, fails on a newly built agent: see the counterexample.
\<close>

theorem observe_terminal:
  "((reward = None \<or>
     (\<exists>r ag1. reward = Some r \<and>
        update (ag\<lparr>past_returns := deque_append (past_returns ag) r\<rparr>) True = Inr ag1)) \<longrightarrow>
    (\<exists>ag'. observe_and_act ag state reward True u k = Inr (None, ag') \<and>
       past_states ag' = Deque [] 2 \<and> past_actions ag' = Deque [] 2 \<and>
       past_returns ag' = Deque [] 2 \<and>
       (\<forall>state2 u2 k2 act2 ag2.
          observe_and_act ag' state2 None False u2 k2 = Inr (act2, ag2) \<longrightarrow>
          items (past_states ag2) = [state2] \<and> length (items (past_actions ag2)) = 1 \<and>
          items (past_returns ag2) = []))) \<and>
   (\<not> (reward = None \<or>
     (\<exists>r ag1. reward = Some r \<and>
        update (ag\<lparr>past_returns := deque_append (past_returns ag) r\<rparr>) True = Inr ag1)) \<longrightarrow>
    (\<exists>e. observe_and_act ag state reward True u k = Inl e))"
proof (intro conjI impI)
  assume h: "reward = None \<or>
     (\<exists>r ag1. reward = Some r \<and>
        update (ag\<lparr>past_returns := deque_append (past_returns ag) r\<rparr>) True = Inr ag1)"
  then obtain ag3 where
    o: "observe_and_act ag state reward True u k = Inr (None, clear_cache ag3)"
    by (auto simp: observe_and_act_def)
  show "\<exists>ag'. observe_and_act ag state reward True u k = Inr (None, ag') \<and>
       past_states ag' = Deque [] 2 \<and> past_actions ag' = Deque [] 2 \<and>
       past_returns ag' = Deque [] 2 \<and>
       (\<forall>state2 u2 k2 act2 ag2.
          observe_and_act ag' state2 None False u2 k2 = Inr (act2, ag2) \<longrightarrow>
          items (past_states ag2) = [state2] \<and> length (items (past_actions ag2)) = 1 \<and>
          items (past_returns ag2) = [])"
  proof (intro exI [of _ "clear_cache ag3"] conjI allI impI)
    show "observe_and_act ag state reward True u k = Inr (None, clear_cache ag3)" by (rule o)
  next
    fix state2 u2 k2 act2 ag2
    assume "observe_and_act (clear_cache ag3) state2 None False u2 k2 = Inr (act2, ag2)"
    from fresh_window [OF _ _ _ this] clear_cache_buffers [of ag3]
    show "items (past_states ag2) = [state2]" "length (items (past_actions ag2)) = 1"
      "items (past_returns ag2) = []" by simp_all
  qed (simp_all add: clear_cache_def)
next
  assume h: "\<not> (reward = None \<or>
     (\<exists>r ag1. reward = Some r \<and>
        update (ag\<lparr>past_returns := deque_append (past_returns ag) r\<rparr>) True = Inr ag1))"
  then obtain r where r: "reward = Some r" by auto
  with h obtain e where
    "update (ag\<lparr>past_returns := deque_append (past_returns ag) r\<rparr>) True = Inl e"
    by (cases "update (ag\<lparr>past_returns := deque_append (past_returns ag) r\<rparr>) True") auto
  with r show "\<exists>e. observe_and_act ag state reward True u k = Inl e"
    by (simp add: observe_and_act_def)
qed

theorem observe_terminal_witness:
  "(\<exists>ag'. observe_and_act (one_pair easy21 0) (0, 0) (Some 1) True 0 0 = Inr (None, ag') \<and>
      past_states ag' = Deque [] 2 \<and> past_actions ag' = Deque [] 2 \<and>
      past_returns ag' = Deque [] 2) \<and>
   (\<exists>ag'. observe_and_act (one_pair easy21 0) (0, 0) None True 0 0 = Inr (None, ag') \<and>
      past_states ag' = Deque [] 2 \<and> past_actions ag' = Deque [] 2 \<and>
      past_returns ag' = Deque [] 2) \<and>
   (\<exists>e. observe_and_act easy21 (0, 0) (Some 1) True 0 0 = Inl e)"
proof (intro conjI)
  have "\<exists>ag1. update ((one_pair easy21 0)
          \<lparr>past_returns := deque_append (past_returns (one_pair easy21 0)) 1\<rparr>) True = Inr ag1"
    using update_last [of "(one_pair easy21 0)
          \<lparr>past_returns := deque_append (past_returns (one_pair easy21 0)) 1\<rparr>"
        0 "[1]" "(5, 10)" 1 "[]" _ _ "(5, 10, 1)" "(5, 10, 1)"]
    by (simp add: example_defs locate_defs deque_append_def)
  with observe_terminal [where reward = "Some 1" and ag = "one_pair easy21 0"
      and state = "(0, 0)" and u = 0 and k = 0]
  show "\<exists>ag'. observe_and_act (one_pair easy21 0) (0, 0) (Some 1) True 0 0 = Inr (None, ag') \<and>
      past_states ag' = Deque [] 2 \<and> past_actions ag' = Deque [] 2 \<and>
      past_returns ag' = Deque [] 2"
    by blast
next
  from observe_terminal [where reward = None and ag = "one_pair easy21 0"
      and state = "(0, 0)" and u = 0 and k = 0]
  show "\<exists>ag'. observe_and_act (one_pair easy21 0) (0, 0) None True 0 0 = Inr (None, ag') \<and>
      past_states ag' = Deque [] 2 \<and> past_actions ag' = Deque [] 2 \<and>
      past_returns ag' = Deque [] 2"
    by blast
next
  have "update (easy21\<lparr>past_returns := deque_append (past_returns easy21) 1\<rparr>) True
        = Inl IndexError"
    by (simp add: update_def history_def deque_getitem_def example_defs)
  then have "\<not> (Some (1::real) = None \<or>
     (\<exists>r ag1. Some (1::real) = Some r \<and>
        update (easy21\<lparr>past_returns := deque_append (past_returns easy21) r\<rparr>) True = Inr ag1))"
    by simp
  with observe_terminal [where reward = "Some 1" and ag = easy21
      and state = "(0, 0)" and u = 0 and k = 0]
  show "\<exists>e. observe_and_act easy21 (0, 0) (Some 1) True 0 0 = Inl e"
    by blast
qed

theorem observe_terminal_counterexample:
  "observe_and_act easy21 (3, 7) (Some (- 1)) True 0 0 = Inl IndexError"
  by (simp add: observe_and_act_def update_def history_def deque_getitem_def deque_append_def
      example_defs)

subsection \<open>The greedy choice\<close>

text \<open>
  Claim C1 asks \<open>take_action\<close> with \<open>explore=False\<close> for the action of the first largest
  entry of the row \<open>Q[state, :]\<close>. The code takes \<open>argmax\<close> of \<open>Q.take(state)\<close>, the two
  entries of the flattened table at the positions \<open>dealer_card\<close> and \<open>player_sum\<close>
  (\<open>take_action_greedy_flat\<close> above). On the agent \<open>trained\<close>, which one episode produces
  (\<open>trained_reachable\<close>), the row of state \<open>(5, 10)\<close> is \<open>[0, 1]\<close>, so the claim gives
  \<open>stick\<close>; the flat entries 5 and 10 are both 0 and the code returns \<open>hit\<close>.
\<close>

theorem greedy_reads_flat_entries:
  "take_action trained (5, 10) False u k = Inr (''hit'', trained) \<and>
   spec_greedy trained (5, 10) = Inr ''stick'' \<and>
   cells (state_action_values trained) (5, 10, 0) = 0 \<and>
   cells (state_action_values trained) (5, 10, 1) = 1"
  by (simp add: take_action_def epsilon_def argmax_def ndarray_size_def unravel_def
      spec_greedy_def row_def upt_0_2 example_defs locate_defs)

subsection \<open>The exploration rate\<close>

text \<open>
  Claim C2 asks for \<open>epsilon = n_0 / (n_0 + S)\<close> with \<open>S\<close> the sum of the visit counts
  \<open>N[state, a]\<close> over all actions. The code sums \<open>N.take(state)\<close>, the two entries of the
  flattened table at the positions \<open>dealer_card\<close> and \<open>player_sum\<close> (\<open>epsilon_flat\<close>
  above). On the agent \<open>trained\<close> the state \<open>(5, 10)\<close> has been visited once, so the claim
  gives \<open>100 / 101\<close>; the flat entries 5 and 10 are both 0 and the code computes 1.
\<close>

theorem epsilon_reads_flat_entries:
  "epsilon trained (5, 10) = Inr 1 \<and>
   spec_epsilon trained (5, 10) = Inr (100 / 101) \<and>
   cells (state_action_visits trained) (5, 10, 0) = 0 \<and>
   cells (state_action_visits trained) (5, 10, 1) = 1"
  by (simp add: epsilon_def ndarray_size_def unravel_def
      spec_epsilon_def row_def upt_0_2 example_defs locate_defs)

subsection \<open>Saving and loading\<close>

text \<open>
  Claim C5. \<open>save\<close> clears the three buffers before it pickles the agent, so the pickled
  object holds empty deques of capacity 2; \<open>load\<close> of the file written returns an agent
  whose tables have the shapes of the saved ones and the same entry at every index (and
  raise at the same indices), and whose buffers are empty. The saving agent itself is left
  with the same entries and empty buffers. Pickling keeps the object with its tables as
  nested lists, and \<open>_save_local\<close> is modelled from the specification. The hypotheses say
  that no axis of a table is empty: on an empty third axis the plot that \<open>save\<close> draws
  after pickling raises IndexError.
\<close>

theorem save_load_roundtrip:
  assumes "ndarray_size (state_action_values ag) \<noteq> 0"
      and "ndarray_size (state_action_visits ag) \<noteq> 0"
  shows "\<exists>ag1 fs1 obj ag2.
     save ag output_dir iteration fs = Inr (ag1, fs1) \<and>
     fs1 (file_path (path_join output_dir (base_name ag)) iteration ''pkl'') = Some (Pickle obj) \<and>
     past_states obj = Deque [] 2 \<and> past_actions obj = Deque [] 2 \<and>
     past_returns obj = Deque [] 2 \<and>
     load (file_path (path_join output_dir (base_name ag)) iteration ''pkl'') fs1 = Inr ag2 \<and>
     shape (state_action_values ag2) = shape (state_action_values ag) \<and>
     shape (state_action_visits ag2) = shape (state_action_visits ag) \<and>
     (\<forall>idx. ndarray_getitem (state_action_values ag2) idx =
            ndarray_getitem (state_action_values ag) idx) \<and>
     (\<forall>idx. ndarray_getitem (state_action_visits ag2) idx =
            ndarray_getitem (state_action_visits ag) idx) \<and>
     past_states ag2 = Deque [] 2 \<and> past_actions ag2 = Deque [] 2 \<and>
     past_returns ag2 = Deque [] 2 \<and>
     (\<forall>idx. ndarray_getitem (state_action_values ag1) idx =
            ndarray_getitem (state_action_values ag) idx) \<and>
     (\<forall>idx. ndarray_getitem (state_action_visits ag1) idx =
            ndarray_getitem (state_action_visits ag) idx) \<and>
     past_states ag1 = Deque [] 2 \<and> past_actions ag1 = Deque [] 2 \<and>
     past_returns ag1 = Deque [] 2"
proof -
  let ?Q = "asarray (ndarray_tolist (state_action_values ag))"
  let ?N = "asarray (ndarray_tolist (state_action_visits ag))"
  let ?dir = "path_join output_dir (base_name ag)"
  let ?obj = "with_tables (clear_cache ag) (ndarray_tolist (state_action_values ag))
                (ndarray_tolist (state_action_visits ag))"
  let ?ag2 = "with_tables ?obj ?Q ?N"
  let ?fs1 = "save_local (Pickle ?obj) ?dir iteration ''pkl'' fs"
  let ?fs2 = "save_local Figure ?dir iteration ''png'' ?fs1"
  have shQ: "shape ?Q = shape (state_action_values ag)"
    by (rule asarray_tolist_shape [OF assms(1)])
  have shN: "shape ?N = shape (state_action_visits ag)"
    by (rule asarray_tolist_shape [OF assms(2)])
  have nz: "snd (snd (shape ?Q)) \<noteq> 0" "snd (snd (shape ?N)) \<noteq> 0"
    using assms unfolding shQ shN by (auto simp: ndarray_size_def split: prod.splits)
  have plot: "save_plot ?ag2 ?dir iteration ?fs1 = Inr ?fs2"
    using nz by (simp add: save_plot_def with_tables_def)
  have sv: "save ag output_dir iteration fs = Inr (?ag2, ?fs2)"
    using plot by (simp add: save_def Let_def with_tables_def clear_cache_def)
  have written: "?fs2 (file_path ?dir iteration ''pkl'') = Some (Pickle ?obj)"
    using pkl_is_not_png [of ?dir iteration] by (simp add: save_local_def)
  have ld: "load (file_path ?dir iteration ''pkl'') ?fs2 = Inr ?ag2"
    using written by (simp add: load_def with_tables_def)
  have gQ: "\<forall>idx. ndarray_getitem ?Q idx = ndarray_getitem (state_action_values ag) idx"
    using asarray_tolist_getitem [OF assms(1)] by simp
  have gN: "\<forall>idx. ndarray_getitem ?N idx = ndarray_getitem (state_action_visits ag) idx"
    using asarray_tolist_getitem [OF assms(2)] by simp
  show ?thesis
    apply (rule exI [of _ ?ag2], rule exI [of _ ?fs2], rule exI [of _ ?obj], rule exI [of _ ?ag2])
    using sv written ld shQ shN gQ gN by (simp add: with_tables_def clear_cache_def)
qed

theorem save_load_roundtrip_witness:
  "\<exists>ag1 fs1 ag2.
     save (two_pairs trained 1) ''out'' None Map.empty = Inr (ag1, fs1) \<and>
     load ''out/td_learning.pkl'' fs1 = Inr ag2 \<and>
     ndarray_getitem (state_action_values ag2) (5, 10, 1) = Inr 1 \<and>
     ndarray_getitem (state_action_visits ag2) (5, 10, 1) = Inr 1 \<and>
     ndarray_getitem (state_action_values ag2) (5, 10, 0) = Inr 0 \<and>
     past_states ag2 = Deque [] 2 \<and> past_actions ag2 = Deque [] 2 \<and>
     past_returns ag2 = Deque [] 2"
proof -
  have h1: "ndarray_size (state_action_values (two_pairs trained 1)) \<noteq> 0"
    by (simp add: ndarray_size_def example_defs)
  have h2: "ndarray_size (state_action_visits (two_pairs trained 1)) \<noteq> 0"
    by (simp add: ndarray_size_def example_defs)
  have p: "file_path (path_join ''out'' (base_name (two_pairs trained 1))) None ''pkl''
           = ''out/td_learning.pkl''"
    by (simp add: file_path_def path_join_def example_defs)
  have g: "ndarray_getitem (state_action_values (two_pairs trained 1)) (5, 10, 1) = Inr 1"
    "ndarray_getitem (state_action_visits (two_pairs trained 1)) (5, 10, 1) = Inr 1"
    "ndarray_getitem (state_action_values (two_pairs trained 1)) (5, 10, 0) = Inr 0"
    by (simp_all add: ndarray_getitem_def example_defs locate_defs)
  from save_load_roundtrip [OF h1 h2, of "''out''" None Map.empty]
  obtain ag1 fs1 ag2 where
    "save (two_pairs trained 1) ''out'' None Map.empty = Inr (ag1, fs1)"
    "load ''out/td_learning.pkl'' fs1 = Inr ag2"
    "\<forall>idx. ndarray_getitem (state_action_values ag2) idx =
            ndarray_getitem (state_action_values (two_pairs trained 1)) idx"
    "\<forall>idx. ndarray_getitem (state_action_visits ag2) idx =
            ndarray_getitem (state_action_visits (two_pairs trained 1)) idx"
    "past_states ag2 = Deque [] 2" "past_actions ag2 = Deque [] 2" "past_returns ag2 = Deque [] 2"
    unfolding p by blast
  with g show ?thesis by auto
qed

end
